theory Spec2Isabelle
  imports
    Main
    "HOL-Library.RBT"
    "HOL-Library.List_Lexorder"
    "HOL-Library.Char_ord"
    "HOL-Library.Product_Lexorder"
begin

section \<open>The KVDB manager of the Wazuh engine (kvdbManager.cpp)\<close>

text \<open>
  The manager keeps one RocksDB instance and a \<^verbatim>\<open>std::map\<close> from database names to
  column family handles. Every \<^verbatim>\<open>std::map\<close> of the source is a red-black tree over
  a linearly ordered key: \<^typ>\<open>('k, 'v) rbt\<close>. Strings are compared as
  \<^verbatim>\<open>std::string\<close> compares them, lexicographically on the character codes.
\<close>

subsection \<open>std::map operations\<close>

definition std_map_count :: "('k::linorder, 'v) rbt \<Rightarrow> 'k \<Rightarrow> nat" where
  \<comment> \<open>\<^verbatim>\<open>std::map::count\<close>: the number of elements with the key, 0 or 1.\<close>
  "std_map_count m k = (case RBT.lookup m k of None \<Rightarrow> 0 | Some _ \<Rightarrow> 1)"

definition std_map_insert :: "'k::linorder \<Rightarrow> 'v \<Rightarrow> ('k, 'v) rbt \<Rightarrow> ('k, 'v) rbt" where
  \<comment> \<open>\<^verbatim>\<open>std::map::insert\<close> and \<^verbatim>\<open>emplace\<close>: an existing element is kept.\<close>
  "std_map_insert k v m = (case RBT.lookup m k of None \<Rightarrow> RBT.insert k v m | Some _ \<Rightarrow> m)"

subsection \<open>Values that cross the boundary of the file\<close>

datatype status = Status (ok: bool) (ToString: string)
  \<comment> \<open>\<^verbatim>\<open>rocksdb::Status\<close>, as far as the file reads it: \<^verbatim>\<open>ok()\<close> and \<^verbatim>\<open>ToString()\<close>.\<close>

type_synonym cf_handle = nat
  \<comment> \<open>A \<^verbatim>\<open>rocksdb::ColumnFamilyHandle*\<close> that points to a handle object; a pointer
      that may be null is a \<^typ>\<open>cf_handle option\<close>.\<close>

datatype base_error = Error (message: string)
  \<comment> \<open>\<^verbatim>\<open>base::Error\<close>: an error is its message.\<close>

datatype abort =
    NullPointerDereference
  | VectorIndexOutOfRange
  | BadOptionalAccess
  | FilesystemError
  | LengthError
  \<comment> \<open>The ways a call can fail to return to its caller: undefined behaviour of a
      dereference or of an index past the end, and exceptions nothing in the file catches.\<close>

definition kDefaultColumnFamilyName :: string where
  "kDefaultColumnFamilyName = ''default''"

definition c_str :: "string \<Rightarrow> string" where
  \<comment> \<open>The characters a \<^verbatim>\<open>const char*\<close> reader sees: up to the first NUL.\<close>
  "c_str s = takeWhile (\<lambda>c. c \<noteq> CHR 0x00) s"

definition quoted :: "string \<Rightarrow> string" where
  \<comment> \<open>A text between two single quotes, as the format strings of the file print a path.\<close>
  "quoted s = [CHR 0x27] @ s @ [CHR 0x27]"

function fmt_nat :: "nat \<Rightarrow> string" where
  \<comment> \<open>What \<^verbatim>\<open>fmt::format("{}", n)\<close> prints for an unsigned integer.\<close>
  "fmt_nat n = (if n < 10 then [''0123456789'' ! n] else fmt_nat (n div 10) @ [''0123456789'' ! (n mod 10)])"
  by pat_completeness auto
termination
  by (relation "measure id") auto

text \<open>
  Modelled from the spec: the structured document class \<^verbatim>\<open>json::Json\<close> is not in the
  file. The spec asks of a document that it supports "is this an object" and "enumerate
  key \<open>\<rightarrow>\<close> value pairs"; keys of an object stay in document order, duplicates included.
\<close>

datatype json =
    JNull
  | JBool bool
  | JNumber int
  | JString string
  | JArray "json list"
  | JObject "(string \<times> json) list"

fun isObject :: "json \<Rightarrow> bool" where
  \<comment> \<open>Modelled from the spec: \<^verbatim>\<open>Json::isObject\<close> is not in the file.\<close>
  "isObject (JObject _) = True"
| "isObject _ = False"

fun getObject :: "json \<Rightarrow> (string \<times> json) list option" where
  \<comment> \<open>Modelled from the spec: \<^verbatim>\<open>Json::getObject\<close> is not in the file; it returns an
      optional that holds the entries when the document is an object.\<close>
  "getObject (JObject entries) = Some entries"
| "getObject _ = None"

record rocksdb_options =
  create_if_missing :: bool

datatype file_read =
    CannotOpen
  | NoSize
  | Bytes string
  \<comment> \<open>What the \<^verbatim>\<open>std::ifstream\<close> of \<^verbatim>\<open>loadDBFromFile\<close> meets at a path: the stream does not
      open; it opens but \<^verbatim>\<open>tellg()\<close> has no position to report and returns -1 (a directory,
      a FIFO); it opens and the bytes of the file are read.\<close>

text \<open>
  The collaborators the file calls but does not define: the file system, the RocksDB
  library and the JSON parser. \<^typ>\<open>'db\<close> is the state of an open RocksDB instance; each
  call on it returns its status together with the instance's new state. A column family
  handle returned with a status that is not OK is never read by the file.
\<close>

record 'db env =
  create_directories :: "string \<Rightarrow> bool"
    \<comment> \<open>\<^verbatim>\<open>std::filesystem::create_directories\<close>: False when it throws.\<close>
  ListColumnFamilies :: "string \<Rightarrow> status \<times> string list"
  Open :: "rocksdb_options \<Rightarrow> string \<Rightarrow> string list \<Rightarrow> status \<times> cf_handle list \<times> 'db option"
    \<comment> \<open>options, path and descriptors to the status, the handles vector and the pointer
        left in \<^verbatim>\<open>m_pRocksDB\<close>.\<close>
  CreateColumnFamily :: "'db \<Rightarrow> string \<Rightarrow> status \<times> cf_handle \<times> 'db"
  DropColumnFamily :: "'db \<Rightarrow> cf_handle \<Rightarrow> status \<times> 'db"
  DestroyColumnFamilyHandle :: "'db \<Rightarrow> cf_handle option \<Rightarrow> status \<times> 'db"
  Put :: "'db \<Rightarrow> cf_handle \<Rightarrow> string \<Rightarrow> string \<Rightarrow> status \<times> 'db"
  read_file :: "string \<Rightarrow> file_read"
  parse :: "string \<Rightarrow> json option"
    \<comment> \<open>The \<^verbatim>\<open>json::Json\<close> constructor: None when it throws.\<close>
  str :: "json \<Rightarrow> string"
    \<comment> \<open>\<^verbatim>\<open>Json::str()\<close>, the serialised value.\<close>

subsection \<open>The handler registry\<close>

text \<open>
  Modelled from the spec: the class \<^verbatim>\<open>KVDBHandlerCollection\<close> and its \<^verbatim>\<open>RefCounter\<close> are
  not in the file. The spec's registry holds UsageEntries, "the pair (database name,
  scope name) with a live count of outstanding Handlers"; acquire "increments the
  UsageEntry, creating it at 1 if absent"; release "decrements the matching UsageEntry;
  if it reaches zero, removes the entry" and tells "not found" from "count already zero";
  the RefInfo of a database is "a mapping from scope name \<open>\<rightarrow>\<close> count (a read-only
  projection of UsageEntries sharing that database)".
\<close>

type_synonym RefInfo = "(string, nat) rbt"

type_synonym KVDBHandlerCollection = "(string \<times> string, nat) rbt"

datatype RefCounter = RefCounter (getRefMapRC: RefInfo)

definition addRef :: "string \<Rightarrow> nat \<Rightarrow> RefCounter \<Rightarrow> RefCounter" where
  \<comment> \<open>Modelled from the spec: \<^verbatim>\<open>RefCounter::addRef(name, times)\<close> adds \<open>n\<close> references
      to \<open>name\<close>, creating the entry if absent.\<close>
  "addRef name n rc =
     (case RBT.lookup (getRefMapRC rc) name of
        None \<Rightarrow> RefCounter (RBT.insert name n (getRefMapRC rc))
      | Some c \<Rightarrow> RefCounter (RBT.insert name (c + n) (getRefMapRC rc)))"

definition addKVDBHandler :: "string \<Rightarrow> string \<Rightarrow> KVDBHandlerCollection \<Rightarrow> KVDBHandlerCollection" where
  \<comment> \<open>Modelled from the spec: acquire of \<^verbatim>\<open>KVDBHandlerCollection\<close>, "increments the
      UsageEntry for (dbName, scopeName), creating it at 1 if absent".\<close>
  "addKVDBHandler dbName scopeName coll =
     (case RBT.lookup coll (dbName, scopeName) of
        None \<Rightarrow> RBT.insert (dbName, scopeName) 1 coll
      | Some c \<Rightarrow> RBT.insert (dbName, scopeName) (c + 1) coll)"

datatype release_error = ReleaseNotFound | ReleaseCountZero

definition removeKVDBHandler ::
  "string \<Rightarrow> string \<Rightarrow> KVDBHandlerCollection \<Rightarrow> release_error + KVDBHandlerCollection" where
  \<comment> \<open>Modelled from the spec: release of \<^verbatim>\<open>KVDBHandlerCollection\<close>, "decrements the
      matching UsageEntry; if it reaches zero, removes the entry"; a release with no
      matching acquire is reported.\<close>
  "removeKVDBHandler dbName scopeName coll =
     (case RBT.lookup coll (dbName, scopeName) of
        None \<Rightarrow> Inl ReleaseNotFound
      | Some c \<Rightarrow>
          if c = 0 then Inl ReleaseCountZero
          else if c = 1 then Inr (RBT.delete (dbName, scopeName) coll)
          else Inr (RBT.insert (dbName, scopeName) (c - 1) coll))"

definition getDBNames :: "KVDBHandlerCollection \<Rightarrow> string list" where
  \<comment> \<open>Modelled from the spec: \<^verbatim>\<open>KVDBHandlerCollection::getDBNames\<close>, the names of
      "every database with at least one UsageEntry".\<close>
  "getDBNames coll = remdups (map fst (RBT.keys coll))"

definition getRefMap :: "KVDBHandlerCollection \<Rightarrow> string \<Rightarrow> RefInfo" where
  \<comment> \<open>Modelled from the spec: \<^verbatim>\<open>KVDBHandlerCollection::getRefMap\<close>, "the RefInfo
      (scope \<open>\<rightarrow>\<close> count) for that database".\<close>
  "getRefMap coll dbName =
     RBT.fold (\<lambda>(d, s) c refInfo. if d = dbName then RBT.insert s c refInfo else refInfo)
       coll RBT.empty"

subsection \<open>The manager\<close>

record KVDBManagerOptions =
  opt_dbStoragePath :: string
  opt_dbName :: string

record 'db KVDBManager =
  m_ManagerOptions :: KVDBManagerOptions
  m_rocksDBOptions :: rocksdb_options
  m_pRocksDB :: "'db option"
  m_mapCFHandles :: "(string, cf_handle) rbt"
  m_pDefaultCFHandle :: "cf_handle option"
  m_kvdbHandlerCollection :: KVDBHandlerCollection
  m_isInitialized :: bool

text \<open>
  A \<^verbatim>\<open>KVDBHandler\<close> is the tuple of its constructor's arguments. The two references it
  keeps, to the engine and to the shared collection, are written as the value of the
  object referred to when the handler is made.
\<close>

record 'db KVDBHandler =
  kh_pRocksDB :: "'db option"
  kh_cfHandle :: cf_handle
  kh_collection :: KVDBHandlerCollection
  kh_dbName :: string
  kh_scopeName :: string

definition KVDBManager_new :: "KVDBManagerOptions \<Rightarrow> 'db KVDBManager" where
  \<comment> \<open>The constructor stores the options and makes a fresh collection; the map starts
      empty. The class declaration is not in the file: the members the constructor does
      not assign are taken to start as null pointers and false. The metrics scope it also
      fetches is not read by any function of the file and is left out.\<close>
  "KVDBManager_new options =
     \<lparr> m_ManagerOptions = options,
       m_rocksDBOptions = \<lparr> create_if_missing = False \<rparr>,
       m_pRocksDB = None,
       m_mapCFHandles = RBT.empty,
       m_pDefaultCFHandle = None,
       m_kvdbHandlerCollection = RBT.empty,
       m_isInitialized = False \<rparr>"

definition createColumnFamily ::
  "'db env \<Rightarrow> string \<Rightarrow> 'db KVDBManager \<Rightarrow> abort + ((base_error + cf_handle) \<times> 'db KVDBManager)" where
  "createColumnFamily E name mgr =
     (case m_pRocksDB mgr of
        None \<Rightarrow> Inl NullPointerDereference
      | Some db \<Rightarrow>
          (case CreateColumnFamily E db name of
             (s, cfHandle, db') \<Rightarrow>
               if ok s
               then Inr (Inr cfHandle,
                         mgr\<lparr> m_pRocksDB := Some db',
                              m_mapCFHandles := std_map_insert name cfHandle (m_mapCFHandles mgr) \<rparr>)
               else Inr (Inl (Error (''Could not create DB '' @ name @ '', RocksDB Status: '' @ ToString s)),
                         mgr\<lparr> m_pRocksDB := Some db' \<rparr>)))"

definition initializeOptions :: "'db KVDBManager \<Rightarrow> 'db KVDBManager" where
  \<comment> \<open>Of the options it sets, only \<^verbatim>\<open>create_if_missing\<close> is kept; the tuning of
      parallelism and compaction does not reach the manager's state.\<close>
  "initializeOptions mgr = mgr\<lparr> m_rocksDBOptions := \<lparr> create_if_missing = True \<rparr> \<rparr>"

fun scanColumnNames :: "string list \<Rightarrow> bool \<Rightarrow> string list \<Rightarrow> bool \<times> string list" where
  \<comment> \<open>The loop over \<^verbatim>\<open>columnNames\<close>: \<^verbatim>\<open>hasDefaultCF\<close> and \<^verbatim>\<open>cfDescriptors\<close> (by name).\<close>
  "scanColumnNames [] hasDefaultCF cfDescriptors = (hasDefaultCF, cfDescriptors)"
| "scanColumnNames (cfName # rest) hasDefaultCF cfDescriptors =
     scanColumnNames rest
       (if kDefaultColumnFamilyName = cfName then True else hasDefaultCF)
       (cfDescriptors @ [cfName])"

fun joinHandles ::
  "string list \<Rightarrow> cf_handle list \<Rightarrow> nat \<Rightarrow> 'db KVDBManager \<Rightarrow> abort + 'db KVDBManager" where
  \<comment> \<open>The loop that joins the two vectors, from index \<open>i\<close> on; the first argument is
      \<^verbatim>\<open>cfDescriptors\<close> from that index. \<^verbatim>\<open>cfHandles[i]\<close> is not bounds-checked.\<close>
  "joinHandles [] cfHandles i mgr = Inr mgr"
| "joinHandles (name # rest) cfHandles i mgr =
     (if i < length cfHandles
      then joinHandles rest cfHandles (Suc i)
             (if name \<noteq> kDefaultColumnFamilyName
              then mgr\<lparr> m_mapCFHandles := std_map_insert name (cfHandles ! i) (m_mapCFHandles mgr) \<rparr>
              else mgr\<lparr> m_pDefaultCFHandle := Some (cfHandles ! i) \<rparr>)
      else Inl VectorIndexOutOfRange)"

definition cfDescriptorsOf :: "'db env \<Rightarrow> string \<Rightarrow> string list" where
  \<comment> \<open>The descriptors \<^verbatim>\<open>initializeMainDB\<close> hands to \<^verbatim>\<open>DB::Open\<close> for a path.\<close>
  "cfDescriptorsOf E dbNameFullPath =
     (case ListColumnFamilies E dbNameFullPath of
        (listStatus, columnNames) \<Rightarrow>
          (case (if ok listStatus then scanColumnNames columnNames False [] else (False, [])) of
             (hasDefaultCF, cfDescriptors) \<Rightarrow>
               if \<not> hasDefaultCF then cfDescriptors @ [kDefaultColumnFamilyName] else cfDescriptors))"

definition dbNameFullPathOf :: "KVDBManagerOptions \<Rightarrow> string" where
  \<comment> \<open>\<^verbatim>\<open>fmt::format("{}{}", dbStoragePath, m_ManagerOptions.dbName)\<close>.\<close>
  "dbNameFullPathOf options = opt_dbStoragePath options @ opt_dbName options"

definition initializeMainDB :: "'db env \<Rightarrow> 'db KVDBManager \<Rightarrow> abort + 'db KVDBManager" where
  "initializeMainDB E mgr =
     (let dbStoragePath = opt_dbStoragePath (m_ManagerOptions mgr) in
      if \<not> create_directories E dbStoragePath then Inl FilesystemError
      else
        let dbNameFullPath = dbNameFullPathOf (m_ManagerOptions mgr);
            cfDescriptors = cfDescriptorsOf E dbNameFullPath
        in case Open E (m_rocksDBOptions mgr) dbNameFullPath cfDescriptors of
             (openStatus, cfHandles, pRocksDB) \<Rightarrow>
               joinHandles cfDescriptors cfHandles 0 (mgr\<lparr> m_pRocksDB := pRocksDB \<rparr>))"

definition initialize :: "'db env \<Rightarrow> 'db KVDBManager \<Rightarrow> abort + 'db KVDBManager" where
  "initialize E mgr =
     (case initializeMainDB E (initializeOptions mgr) of
        Inl a \<Rightarrow> Inl a
      | Inr mgr' \<Rightarrow> Inr (mgr'\<lparr> m_isInitialized := True \<rparr>))"

definition dropAndDestroy :: "'db env \<Rightarrow> string \<Rightarrow> cf_handle \<Rightarrow> 'db \<Rightarrow> 'db" where
  \<comment> \<open>One round of the loop of \<^verbatim>\<open>finalizeMainDB\<close>; both statuses are overwritten unread.\<close>
  "dropAndDestroy E name cfHandle db =
     (case DropColumnFamily E db cfHandle of
        (opStatus, db') \<Rightarrow>
          (case DestroyColumnFamilyHandle E db' (Some cfHandle) of
             (opStatus', db'') \<Rightarrow> db''))"

definition finalizeMainDB :: "'db env \<Rightarrow> 'db KVDBManager \<Rightarrow> abort + 'db KVDBManager" where
  "finalizeMainDB E mgr =
     (case m_pRocksDB mgr of
        None \<Rightarrow> Inl NullPointerDereference
      | Some db \<Rightarrow>
          (let db1 = RBT.fold (dropAndDestroy E) (m_mapCFHandles mgr) db in
           case DestroyColumnFamilyHandle E db1 (m_pDefaultCFHandle mgr) of
             (s, db2) \<Rightarrow> Inr (mgr\<lparr> m_mapCFHandles := RBT.empty, m_pRocksDB := None \<rparr>)))"

definition finalize :: "'db env \<Rightarrow> 'db KVDBManager \<Rightarrow> abort + 'db KVDBManager" where
  "finalize E mgr =
     (case finalizeMainDB E mgr of
        Inl a \<Rightarrow> Inl a
      | Inr mgr' \<Rightarrow> Inr (mgr'\<lparr> m_isInitialized := False \<rparr>))"

definition getKVDBHandler ::
  "string \<Rightarrow> string \<Rightarrow> 'db KVDBManager \<Rightarrow> (base_error + 'db KVDBHandler) \<times> 'db KVDBManager" where
  \<comment> \<open>\<^verbatim>\<open>count(dbName)\<close> is nonzero exactly when the lookup finds the handle that
      \<^verbatim>\<open>m_mapCFHandles[dbName]\<close> then reads.\<close>
  "getKVDBHandler dbName scopeName mgr =
     (case RBT.lookup (m_mapCFHandles mgr) dbName of
        Some cfHandle \<Rightarrow>
          (let coll = addKVDBHandler dbName scopeName (m_kvdbHandlerCollection mgr);
               kvdbHandler = \<lparr> kh_pRocksDB = m_pRocksDB mgr, kh_cfHandle = cfHandle,
                               kh_collection = coll, kh_dbName = dbName,
                               kh_scopeName = scopeName \<rparr>
           in (Inr kvdbHandler, mgr\<lparr> m_kvdbHandlerCollection := coll \<rparr>))
      | None \<Rightarrow> (Inl (Error (''The DB '' @ dbName @ '' not exists.'')), mgr))"

definition listDBs :: "bool \<Rightarrow> 'db KVDBManager \<Rightarrow> string list" where
  "listDBs loaded mgr = RBT.fold (\<lambda>name cfHandle spaces. spaces @ [name]) (m_mapCFHandles mgr) []"

definition existsDB :: "string \<Rightarrow> 'db KVDBManager \<Rightarrow> bool" where
  "existsDB name mgr = (std_map_count (m_mapCFHandles mgr) name > 0)"

definition getKVDBHandlersInfo :: "'db KVDBManager \<Rightarrow> (string, RefInfo) rbt" where
  "getKVDBHandlersInfo mgr =
     fold (\<lambda>dbName retValue.
             std_map_insert dbName (getRefMap (m_kvdbHandlerCollection mgr) dbName) retValue)
       (getDBNames (m_kvdbHandlerCollection mgr)) RBT.empty"

definition refCounterStep ::
  "string \<Rightarrow> string \<Rightarrow> nat \<Rightarrow> (string, RefCounter) rbt \<Rightarrow> (string, RefCounter) rbt" where
  \<comment> \<open>The body of the inner loop of \<^verbatim>\<open>getKVDBScopesInfo\<close>; \<^verbatim>\<open>operator[]\<close> makes an empty
      counter for a scope seen for the first time.\<close>
  "refCounterStep dbName scopeName countDBsUsingScope refCounterMap =
     (let counterMap = (case RBT.lookup refCounterMap scopeName of
                          None \<Rightarrow> RefCounter RBT.empty
                        | Some rc \<Rightarrow> rc)
      in RBT.insert scopeName (addRef dbName countDBsUsingScope counterMap) refCounterMap)"

definition refCounterMapOf :: "(string, RefInfo) rbt \<Rightarrow> (string, RefCounter) rbt" where
  \<comment> \<open>The nested iterations of \<^verbatim>\<open>getKVDBScopesInfo\<close> over \<^verbatim>\<open>handlersInfo\<close>, which fill the
      temporary \<^verbatim>\<open>refCounterMap\<close>.\<close>
  "refCounterMapOf handlersInfo =
     RBT.fold (\<lambda>dbName scopesUsingDB acc. RBT.fold (refCounterStep dbName) scopesUsingDB acc)
       handlersInfo RBT.empty"

definition invertHandlersInfo :: "(string, RefInfo) rbt \<Rightarrow> (string, RefInfo) rbt" where
  \<comment> \<open>\<^verbatim>\<open>getKVDBScopesInfo\<close> from the local \<^verbatim>\<open>handlersInfo\<close> on: the last loop copies
      each counter's map into the result.\<close>
  "invertHandlersInfo handlersInfo =
     RBT.fold (\<lambda>scopeName refCounter retValue.
                 std_map_insert scopeName (getRefMapRC refCounter) retValue)
       (refCounterMapOf handlersInfo) RBT.empty"

definition getKVDBScopesInfo :: "'db KVDBManager \<Rightarrow> (string, RefInfo) rbt" where
  "getKVDBScopesInfo mgr = invertHandlersInfo (getKVDBHandlersInfo mgr)"

definition deleteDB ::
  "'db env \<Rightarrow> string \<Rightarrow> 'db KVDBManager \<Rightarrow> abort + (base_error option \<times> 'db KVDBManager)" where
  "deleteDB E name mgr =
     (let handlersInfo = getKVDBHandlersInfo mgr;
          refCount = std_map_count handlersInfo name
      in if refCount \<noteq> 0
         then Inr (Some (Error (''Could not remove the DB '' @ name @ ''. Usage Reference Count: ''
                                 @ fmt_nat refCount @ ''.'')), mgr)
         else
           (case RBT.lookup (m_mapCFHandles mgr) name of
              Some cfHandle \<Rightarrow>
                (case m_pRocksDB mgr of
                   None \<Rightarrow> Inl NullPointerDereference
                 | Some db \<Rightarrow>
                     (case DropColumnFamily E db cfHandle of
                        (opStatus, db') \<Rightarrow>
                          if ok opStatus
                          then Inr (None, mgr\<lparr> m_pRocksDB := Some db',
                                               m_mapCFHandles := RBT.delete name (m_mapCFHandles mgr) \<rparr>)
                          else Inr (Some (Error (''Could not remove the DB '' @ name
                                                  @ ''. RocksDB Status: '' @ ToString opStatus)),
                                    mgr\<lparr> m_pRocksDB := Some db' \<rparr>)))
            | None \<Rightarrow> Inr (Some (Error ''The DB not exists.''), mgr)))"

fun putEntries ::
  "'db env \<Rightarrow> cf_handle \<Rightarrow> (string \<times> json) list \<Rightarrow> 'db KVDBManager
     \<Rightarrow> abort + (base_error option \<times> 'db KVDBManager)" where
  \<comment> \<open>The loop over \<^verbatim>\<open>entries\<close>. The format string has two fields, so the status text
      given as third argument is not printed.\<close>
  "putEntries E cfHandle [] mgr = Inr (None, mgr)"
| "putEntries E cfHandle ((key, val) # rest) mgr =
     (case m_pRocksDB mgr of
        None \<Rightarrow> Inl NullPointerDereference
      | Some db \<Rightarrow>
          (case Put E db cfHandle key (str E val) of
             (status, db') \<Rightarrow>
               if \<not> ok status
               then Inr (Some (Error (''An error occurred while inserting data key '' @ key
                                       @ '', value '' @ str E val @ '': '')),
                         mgr\<lparr> m_pRocksDB := Some db' \<rparr>)
               else putEntries E cfHandle rest (mgr\<lparr> m_pRocksDB := Some db' \<rparr>)))"

definition loadDBFromFile ::
  "'db env \<Rightarrow> string \<Rightarrow> string \<Rightarrow> 'db KVDBManager
     \<Rightarrow> abort + (base_error option \<times> 'db KVDBManager)" where
  \<comment> \<open>\<^verbatim>\<open>contents.resize(in.tellg())\<close> is not checked and stands outside the \<^verbatim>\<open>try\<close>: with
      \<^verbatim>\<open>tellg()\<close> at -1 the size asked for is the largest \<^verbatim>\<open>size_t\<close> and \<^verbatim>\<open>resize\<close> throws
      \<^verbatim>\<open>std::length_error\<close>, which leaves the function.\<close>
  "loadDBFromFile E name path mgr =
     (let cfHandle = (if std_map_count (m_mapCFHandles mgr) name \<noteq> 0
                      then RBT.lookup (m_mapCFHandles mgr) name else None)
      in case cfHandle of
           None \<Rightarrow> Inr (Some (Error ''The DB not exists.''), mgr)
         | Some h \<Rightarrow>
             if path = [] then Inr (Some (Error ''The path is empty.''), mgr)
             else
               (case read_file E path of
                  CannotOpen \<Rightarrow>
                    Inr (Some (Error (''An error occurred while opening the file '' @ quoted (c_str path))),
                         mgr)
                | NoSize \<Rightarrow> Inl LengthError
                | Bytes contents \<Rightarrow>
                    (case parse E (c_str contents) of
                       None \<Rightarrow>
                         Inr (Some (Error (''An error occurred while parsing the JSON file ''
                                            @ quoted (c_str path))), mgr)
                     | Some fileContentsJson \<Rightarrow>
                         if \<not> isObject fileContentsJson
                         then Inr (Some (Error (''An error occurred while parsing the JSON file ''
                                                 @ quoted (c_str path) @ '': JSON is not an object'')), mgr)
                         else
                           (case getObject fileContentsJson of
                              None \<Rightarrow> Inl BadOptionalAccess
                            | Some entries \<Rightarrow> putEntries E h entries mgr))))"

definition createDB ::
  "'db env \<Rightarrow> string \<Rightarrow> 'db KVDBManager \<Rightarrow> abort + (base_error option \<times> 'db KVDBManager)" where
  "createDB E name mgr =
     (if existsDB name mgr then Inr (None, mgr)
      else
        (case createColumnFamily E name mgr of
           Inl a \<Rightarrow> Inl a
         | Inr (createResult, mgr') \<Rightarrow>
             (case createResult of
                Inl err \<Rightarrow> Inr (Some err, mgr')
              | Inr cfHandle \<Rightarrow> Inr (None, mgr'))))"




text \<open>
  What the bulk load is to achieve, in the spec's words: "for each key, serializes the
  value and performs a point write into the namespace". \<open>writeAll\<close> is the state of the
  engine after the writes of all the entries, in order, and None when one of them fails.
\<close>

fun writeAll :: "'db env \<Rightarrow> cf_handle \<Rightarrow> (string \<times> json) list \<Rightarrow> 'db \<Rightarrow> 'db option" where
  "writeAll E cfHandle [] db = Some db"
| "writeAll E cfHandle ((key, val) # rest) db =
     (case Put E db cfHandle key (str E val) of
        (status, db') \<Rightarrow> if ok status then writeAll E cfHandle rest db' else None)"

subsection \<open>Reading the introspection maps\<close>

definition at2 :: "('a::linorder, ('b::linorder, 'c) rbt) rbt \<Rightarrow> 'a \<Rightarrow> 'b \<Rightarrow> 'c option" where
  \<comment> \<open>\<open>m[a][b]\<close> where both keys are present, None otherwise.\<close>
  "at2 m a b = (case RBT.lookup m a of None \<Rightarrow> None | Some inner \<Rightarrow> RBT.lookup inner b)"

definition atRC :: "(string, RefCounter) rbt \<Rightarrow> string \<Rightarrow> string \<Rightarrow> nat option" where
  \<comment> \<open>The same reading of the temporary \<^verbatim>\<open>refCounterMap\<close>.\<close>
  "atRC m s d = (case RBT.lookup m s of None \<Rightarrow> None | Some rc \<Rightarrow> RBT.lookup (getRefMapRC rc) d)"

definition scopesUsing :: "KVDBHandlerCollection \<Rightarrow> string \<Rightarrow> string list" where
  \<comment> \<open>The scopes that hold at least one handler of a database.\<close>
  "scopesUsing coll dbName = RBT.keys (getRefMap coll dbName)"

subsection \<open>An example engine and example managers\<close>

text \<open>
  A small engine to run the operations on: its state is the list of the writes it has
  accepted. It refuses to create a column family named \<open>bad\<close>, to drop the handle 13
  and to write the key \<open>bad\<close>. Its file system holds four files and the directory
  \<open>/var/kvdb/\<close>, and its parser knows the contents of the files.
\<close>

type_synonym toy_db = "(cf_handle \<times> string \<times> string) list"

definition exampleEnv :: "toy_db env" where
  "exampleEnv =
     \<lparr> create_directories = (\<lambda>p. True),
       ListColumnFamilies = (\<lambda>p. (Status True ''OK'', [''default'', ''alpha''])),
       Open = (\<lambda>opts p descs. (Status True ''OK'', map (\<lambda>name. 100 + length name) descs, Some [])),
       CreateColumnFamily = (\<lambda>db name.
          if name = ''bad'' then (Status False ''Invalid argument'', 0, db)
          else (Status True ''OK'', 7, db)),
       DropColumnFamily = (\<lambda>db h.
          if h = 13 then (Status False ''IO error'', db) else (Status True ''OK'', db)),
       DestroyColumnFamilyHandle = (\<lambda>db h. (Status True ''OK'', db)),
       Put = (\<lambda>db h k v.
          if k = ''bad'' then (Status False ''IO error'', db)
          else (Status True ''OK'', db @ [(h, k, v)])),
       read_file = (\<lambda>p. if p = ''kv.json'' then Bytes ''{a:1,bad:2,c:3}''
                        else if p = ''ok.json'' then Bytes ''{a:1,c:3}''
                        else if p = ''list.json'' then Bytes ''[1]''
                        else if p = ''junk.json'' then Bytes ''{''
                        else if p = ''/var/kvdb/'' then NoSize else CannotOpen),
       parse = (\<lambda>s. if s = ''{a:1,bad:2,c:3}''
                      then Some (JObject [(''a'', JNumber 1), (''bad'', JNumber 2), (''c'', JNumber 3)])
                    else if s = ''{a:1,c:3}''
                      then Some (JObject [(''a'', JNumber 1), (''c'', JNumber 3)])
                    else if s = ''[1]'' then Some (JArray [JNumber 1]) else None),
       str = (\<lambda>j. case j of JNumber n \<Rightarrow> fmt_nat (nat n) | _ \<Rightarrow> ''null'') \<rparr>"

definition failingOpenEnv :: "toy_db env" where
  \<comment> \<open>The same engine when the store cannot be opened: \<^verbatim>\<open>DB::Open\<close> reports the failure,
      returns no handle and leaves the instance pointer null.\<close>
  "failingOpenEnv = exampleEnv\<lparr> Open := (\<lambda>opts p descs. (Status False ''IO error: lock'', [], None)) \<rparr>"



definition exampleOptions :: KVDBManagerOptions where
  "exampleOptions = \<lparr> opt_dbStoragePath = ''/var/kvdb/'', opt_dbName = ''main'' \<rparr>"

definition twoScopes :: "toy_db KVDBManager" where
  \<comment> \<open>A manager that tracks \<open>n\<close> and has given out one handler of it to each of the
      scopes \<open>s1\<close> and \<open>s2\<close>.\<close>
  "twoScopes =
     snd (getKVDBHandler ''n'' ''s2''
       (snd (getKVDBHandler ''n'' ''s1''
         ((KVDBManager_new exampleOptions)
            \<lparr> m_pRocksDB := Some [], m_mapCFHandles := RBT.insert ''n'' 5 RBT.empty \<rparr>))))"

definition freshManager :: "toy_db KVDBManager" where
  "freshManager = KVDBManager_new exampleOptions"

definition openedManager :: "toy_db KVDBManager" where
  \<comment> \<open>An open engine with nothing written; \<open>n\<close> is tracked under the handle 5.\<close>
  "openedManager = freshManager\<lparr> m_pRocksDB := Some [], m_mapCFHandles := RBT.insert ''n'' 5 RBT.empty \<rparr>"



definition stuckManager :: "toy_db KVDBManager" where
  \<comment> \<open>The same with \<open>n\<close> under the handle 13, which the engine refuses to drop.\<close>
  "stuckManager = freshManager\<lparr> m_pRocksDB := Some [], m_mapCFHandles := RBT.insert ''n'' 13 RBT.empty \<rparr>"

section \<open>Facts about the maps and the registry\<close>

lemma lookup_std_map_insert:
  "RBT.lookup (std_map_insert k v m) k' =
     (if k' = k then (case RBT.lookup m k of None \<Rightarrow> Some v | Some w \<Rightarrow> Some w) else RBT.lookup m k')"
  by (simp add: std_map_insert_def split: option.splits)

lemma std_map_count_eq: "std_map_count m k = (if RBT.lookup m k = None then 0 else 1)"
  by (simp add: std_map_count_def split: option.splits)

lemma fold_refmap_lookup:
  "distinct (map fst xs) \<Longrightarrow>
   RBT.lookup (fold (\<lambda>((d, s), c) refInfo. if d = dbName then RBT.insert s c refInfo else refInfo) xs acc) s
     = (case map_of xs (dbName, s) of Some c \<Rightarrow> Some c | None \<Rightarrow> RBT.lookup acc s)"
proof (induction xs arbitrary: acc)
  case Nil
  then show ?case by simp
next
  case (Cons x xs)
  obtain d s' c where x: "x = ((d, s'), c)" by (cases x) auto
  from Cons.prems have dist: "distinct (map fst xs)" and notin: "(d, s') \<notin> fst ` set xs" by (auto simp: x)
  have none: "map_of xs (d, s') = None" using notin by (simp add: map_of_eq_None_iff)
  show ?case using Cons.IH[OF dist] none
    by (auto simp: x split: option.splits)
qed

lemma lookup_getRefMap: "RBT.lookup (getRefMap coll dbName) s = RBT.lookup coll (dbName, s)"
proof -
  have "getRefMap coll dbName =
        fold (\<lambda>((d, s), c) refInfo. if d = dbName then RBT.insert s c refInfo else refInfo) (RBT.entries coll) RBT.empty"
    unfolding getRefMap_def RBT.fold_fold
    by (rule arg_cong[where f="\<lambda>f. fold f (RBT.entries coll) RBT.empty"]) (auto simp: fun_eq_iff)
  then show ?thesis
    using fold_refmap_lookup[OF RBT.distinct_entries, of dbName coll RBT.empty s]
    by (simp add: RBT.map_of_entries split: option.splits)
qed

lemma set_getDBNames: "d \<in> set (getDBNames coll) \<longleftrightarrow> (\<exists>s. RBT.lookup coll (d, s) \<noteq> None)"
proof -
  have "d \<in> set (getDBNames coll) \<longleftrightarrow> (\<exists>s. (d, s) \<in> set (RBT.keys coll))"
    by (force simp: getDBNames_def)
  also have "\<dots> \<longleftrightarrow> (\<exists>s. RBT.lookup coll (d, s) \<noteq> None)"
    using RBT.lookup_keys[of coll] by (metis domIff)
  finally show ?thesis .
qed

lemma fold_insert_names_lookup:
  "RBT.lookup (fold (\<lambda>dbName retValue. std_map_insert dbName (f dbName) retValue) names acc) d =
     (case RBT.lookup acc d of Some v \<Rightarrow> Some v | None \<Rightarrow> if d \<in> set names then Some (f d) else None)"
  by (induction names arbitrary: acc) (auto simp: lookup_std_map_insert split: option.splits)

lemma lookup_getKVDBHandlersInfo:
  "RBT.lookup (getKVDBHandlersInfo mgr) d =
     (if d \<in> set (getDBNames (m_kvdbHandlerCollection mgr))
      then Some (getRefMap (m_kvdbHandlerCollection mgr) d) else None)"
  by (simp add: getKVDBHandlersInfo_def fold_insert_names_lookup)

lemma lookup_addRef:
  "RBT.lookup (getRefMapRC (addRef d c rc)) d' =
     (if d' = d then Some (case RBT.lookup (getRefMapRC rc) d of None \<Rightarrow> c | Some c0 \<Rightarrow> c0 + c)
      else RBT.lookup (getRefMapRC rc) d')"
  by (simp add: addRef_def split: option.splits)

lemma atRC_refCounterStep:
  "atRC (refCounterStep d s c rcm) s' d' =
     (if s' = s \<and> d' = d then Some (case atRC rcm s d of None \<Rightarrow> c | Some c0 \<Rightarrow> c0 + c)
      else atRC rcm s' d')"
  by (simp add: atRC_def refCounterStep_def Let_def lookup_addRef split: option.splits)

lemma lookup_refCounterStep_None:
  "RBT.lookup (refCounterStep d s c rcm) s' = None \<longleftrightarrow> s' \<noteq> s \<and> RBT.lookup rcm s' = None"
  by (simp add: refCounterStep_def Let_def)

lemma atRC_inner:
  "distinct (map fst xs) \<Longrightarrow> \<forall>s\<in>fst ` set xs. atRC acc s d = None \<Longrightarrow>
   atRC (fold (\<lambda>(s, c). refCounterStep d s c) xs acc) s' d' =
     (if d' = d \<and> s' \<in> fst ` set xs then map_of xs s' else atRC acc s' d')"
proof (induction xs arbitrary: acc)
  case Nil
  then show ?case by simp
next
  case (Cons x xs)
  obtain s c where x: "x = (s, c)" by (cases x)
  let ?acc = "refCounterStep d s c acc"
  from Cons.prems have dist: "distinct (map fst xs)" and notin: "s \<notin> fst ` set xs"
    by (auto simp: x)
  have pre: "\<forall>t\<in>fst ` set xs. atRC ?acc t d = None"
    using Cons.prems(2) notin by (auto simp: atRC_refCounterStep x)
  have acc_s: "atRC acc s d = None" using Cons.prems(2) by (simp add: x)
  show ?case
    using Cons.IH[OF dist pre] notin acc_s
    by (auto simp: x atRC_refCounterStep)
qed

lemma lookup_inner_None:
  "RBT.lookup (fold (\<lambda>(s, c). refCounterStep d s c) xs acc) s' = None
     \<longleftrightarrow> s' \<notin> fst ` set xs \<and> RBT.lookup acc s' = None"
  by (induction xs arbitrary: acc) (auto simp: lookup_refCounterStep_None)

lemma atRC_outer:
  "distinct (map fst ys) \<Longrightarrow> \<forall>d\<in>fst ` set ys. \<forall>s. atRC acc s d = None \<Longrightarrow>
   atRC (fold (\<lambda>(d, ri) acc. fold (\<lambda>(s, c). refCounterStep d s c) (RBT.entries ri) acc) ys acc) s d =
     (case map_of ys d of Some ri \<Rightarrow> RBT.lookup ri s | None \<Rightarrow> atRC acc s d)"
proof (induction ys arbitrary: acc)
  case Nil
  then show ?case by simp
next
  case (Cons y ys)
  obtain d0 ri0 where y: "y = (d0, ri0)" by (cases y)
  let ?acc = "fold (\<lambda>(s, c). refCounterStep d0 s c) (RBT.entries ri0) acc"
  from Cons.prems have dist: "distinct (map fst ys)" and notin: "d0 \<notin> fst ` set ys"
    by (auto simp: y)
  have inner: "\<And>s' d'. atRC ?acc s' d' =
      (if d' = d0 \<and> s' \<in> fst ` set (RBT.entries ri0) then map_of (RBT.entries ri0) s' else atRC acc s' d')"
    using Cons.prems(2) by (intro atRC_inner) (auto simp: RBT.distinct_entries y)
  have pre: "\<forall>d\<in>fst ` set ys. \<forall>s. atRC ?acc s d = None"
    using Cons.prems(2) notin by (auto simp: inner y)
  have key: "s \<notin> fst ` set (RBT.entries ri0) \<Longrightarrow> RBT.lookup ri0 s = None" for s
    by (metis RBT.map_of_entries map_of_eq_None_iff)
  have none: "map_of ys d0 = None" using notin by (simp add: map_of_eq_None_iff)
  have acc0: "atRC acc s d0 = None" using Cons.prems(2) by (simp add: y)
  show ?case
    using Cons.IH[OF dist pre] none acc0 key
    by (auto simp: y inner RBT.map_of_entries split: option.splits)
qed

lemma lookup_outer_None:
  "RBT.lookup (fold (\<lambda>(d, ri) acc. fold (\<lambda>(s, c). refCounterStep d s c) (RBT.entries ri) acc) ys acc) s = None
     \<longleftrightarrow> (\<forall>(d, ri)\<in>set ys. RBT.lookup ri s = None) \<and> RBT.lookup acc s = None"
proof (induction ys arbitrary: acc)
  case Nil
  then show ?case by simp
next
  case (Cons y ys)
  obtain d0 ri0 where y: "y = (d0, ri0)" by (cases y)
  have key: "s \<notin> fst ` set (RBT.entries ri0) \<longleftrightarrow> RBT.lookup ri0 s = None"
    by (metis RBT.map_of_entries map_of_eq_None_iff)
  show ?case
    by (auto simp: y Cons.IH lookup_inner_None key)
qed

lemma fold_insert_entries_lookup:
  "RBT.lookup (fold (\<lambda>(k, v) retValue. std_map_insert k (g v) retValue) xs acc) k =
     (case RBT.lookup acc k of Some v \<Rightarrow> Some v | None \<Rightarrow> map_option g (map_of xs k))"
  by (induction xs arbitrary: acc) (auto simp: lookup_std_map_insert split: option.splits)

lemma refCounterMapOf_alt:
  "refCounterMapOf H =
     fold (\<lambda>(d, ri) acc. fold (\<lambda>(s, c). refCounterStep d s c) (RBT.entries ri) acc) (RBT.entries H) RBT.empty"
  by (simp add: refCounterMapOf_def RBT.fold_fold)

lemma atRC_refCounterMapOf: "atRC (refCounterMapOf H) s d = at2 H d s"
proof -
  have "atRC (refCounterMapOf H) s d =
        (case map_of (RBT.entries H) d of Some ri \<Rightarrow> RBT.lookup ri s | None \<Rightarrow> atRC RBT.empty s d)"
    unfolding refCounterMapOf_alt
    by (rule atRC_outer) (auto simp: RBT.distinct_entries atRC_def)
  then show ?thesis
    by (simp add: RBT.map_of_entries at2_def atRC_def split: option.splits)
qed

lemma lookup_refCounterMapOf_None:
  "RBT.lookup (refCounterMapOf H) s = None \<longleftrightarrow> (\<forall>d ri. RBT.lookup H d = Some ri \<longrightarrow> RBT.lookup ri s = None)"
  unfolding refCounterMapOf_alt lookup_outer_None
  by (auto simp: RBT.lookup_in_tree)

lemma lookup_invertHandlersInfo:
  "RBT.lookup (invertHandlersInfo H) s = map_option getRefMapRC (RBT.lookup (refCounterMapOf H) s)"
  by (simp add: invertHandlersInfo_def RBT.fold_fold fold_insert_entries_lookup RBT.map_of_entries)

lemma at2_invertHandlersInfo: "at2 (invertHandlersInfo H) s d = at2 H d s"
  using atRC_refCounterMapOf[of H s d]
  by (simp add: at2_def[of "invertHandlersInfo H"] lookup_invertHandlersInfo atRC_def split: option.splits)

lemma lookup_invertHandlersInfo_None:
  "RBT.lookup (invertHandlersInfo H) s = None \<longleftrightarrow> (\<forall>d ri. RBT.lookup H d = Some ri \<longrightarrow> RBT.lookup ri s = None)"
  by (simp add: lookup_invertHandlersInfo lookup_refCounterMapOf_None)

lemma release_after_acquire:
  assumes "RBT.lookup coll (d, s) \<noteq> Some 0"
  shows "\<exists>coll'. removeKVDBHandler d s (addKVDBHandler d s coll) = Inr coll'
           \<and> (\<forall>k. RBT.lookup coll' k = RBT.lookup coll k)"
proof (cases "RBT.lookup coll (d, s)")
  case None
  then show ?thesis
    by (auto simp: removeKVDBHandler_def addKVDBHandler_def)
next
  case (Some c)
  with assms have "c \<noteq> 0" by simp
  with Some show ?thesis
    by (auto simp: removeKVDBHandler_def addKVDBHandler_def)
qed

lemma existsDB_lookup: "existsDB name mgr \<longleftrightarrow> RBT.lookup (m_mapCFHandles mgr) name \<noteq> None"
  by (simp add: existsDB_def std_map_count_eq)

lemma fold_snoc_keys: "fold (\<lambda>(name, cfHandle) spaces. spaces @ [name]) xs acc = acc @ map fst xs"
  by (induction xs arbitrary: acc) auto

lemma listDBs_keys: "listDBs loaded mgr = RBT.keys (m_mapCFHandles mgr)"
  by (simp add: listDBs_def RBT.fold_fold fold_snoc_keys RBT.keys_def_alt)


lemma deleteDB_free:
  assumes "\<forall>s. RBT.lookup (m_kvdbHandlerCollection mgr) (name, s) = None"
  shows "std_map_count (getKVDBHandlersInfo mgr) name = 0"
  using assms by (simp add: std_map_count_eq lookup_getKVDBHandlersInfo set_getDBNames)

lemma at2_getKVDBHandlersInfo:
  "at2 (getKVDBHandlersInfo mgr) d s = RBT.lookup (m_kvdbHandlerCollection mgr) (d, s)"
  using set_getDBNames[of d "m_kvdbHandlerCollection mgr"]
  by (auto simp: at2_def lookup_getKVDBHandlersInfo lookup_getRefMap)

lemma keys_lookup: "k \<in> set (RBT.keys m) \<longleftrightarrow> RBT.lookup m k \<noteq> None"
  using RBT.lookup_keys[of m] by (auto simp: domIff)

lemma deleteDB_in_use:
  assumes "RBT.lookup (m_kvdbHandlerCollection mgr) (name, s) \<noteq> None"
  shows "deleteDB E name mgr =
           Inr (Some (Error (''Could not remove the DB '' @ name @ ''. Usage Reference Count: 1.'')), mgr)"
proof -
  have "name \<in> set (getDBNames (m_kvdbHandlerCollection mgr))"
    using assms set_getDBNames by blast
  then have "std_map_count (getKVDBHandlersInfo mgr) name = 1"
    by (simp add: std_map_count_eq lookup_getKVDBHandlersInfo)
  then show ?thesis
    by (simp add: deleteDB_def)
qed

lemma finalize_Some:
  assumes "m_pRocksDB mgr = Some db"
  shows "finalize E mgr = Inr (mgr\<lparr> m_mapCFHandles := RBT.empty, m_pRocksDB := None, m_isInitialized := False \<rparr>)"
  using assms by (simp add: finalize_def finalizeMainDB_def Let_def split: prod.splits)

lemma finalize_None: "m_pRocksDB mgr = None \<Longrightarrow> finalize E mgr = Inl NullPointerDereference"
  by (simp add: finalize_def finalizeMainDB_def)

section \<open>The claims\<close>

subsection \<open>Deleting a database\<close>

text \<open>
  C1. \<^verbatim>\<open>deleteDB(n)\<close> fails with the "in use" error while the registry has a usage entry for
  \<open>n\<close>, and the count in the error is the number of distinct scopes that hold \<open>n\<close>.
  The first half holds (\<open>deleteDB_in_use\<close>). The second does not: the count printed is
  \<^verbatim>\<open>handlersInfo.count(name)\<close>, the number of map elements with that key, which is 1
  whenever the database is in use. With handlers of \<open>n\<close> held by the two scopes \<open>s1\<close> and
  \<open>s2\<close> the message says 1.
\<close>

theorem deleteDB_reports_one_for_two_scopes:
  "deleteDB exampleEnv ''n'' twoScopes =
     Inr (Some (Error ''Could not remove the DB n. Usage Reference Count: 1.''), twoScopes)
   \<and> length (scopesUsing (m_kvdbHandlerCollection twoScopes) ''n'') = 2"
proof -
  have "RBT.lookup (m_kvdbHandlerCollection twoScopes) (''n'', ''s1'') \<noteq> None"
    by code_simp
  from deleteDB_in_use[OF this, of exampleEnv]
  have "deleteDB exampleEnv ''n'' twoScopes =
     Inr (Some (Error ''Could not remove the DB n. Usage Reference Count: 1.''), twoScopes)"
    by simp
  moreover have "length (scopesUsing (m_kvdbHandlerCollection twoScopes) ''n'') = 2"
    by code_simp
  ultimately show ?thesis by simp
qed

text \<open>
  C2. For a name \<open>n\<close> with no usage entry: if \<open>n\<close> is untracked, \<^verbatim>\<open>deleteDB(n)\<close> returns "The DB
  not exists." and changes nothing; if \<open>n\<close> is tracked and the engine refuses the drop, the
  error carries the engine's status text and the tracked set is unchanged, so \<open>n\<close> is still
  tracked; if the drop succeeds, \<open>n\<close> is erased from the tracked set, every other name is
  kept, and no error is returned.
\<close>

theorem deleteDB_zero_usage:
  assumes "\<forall>s. RBT.lookup (m_kvdbHandlerCollection mgr) (n, s) = None"
  shows "(\<not> existsDB n mgr \<longrightarrow>
            deleteDB E n mgr = Inr (Some (Error ''The DB not exists.''), mgr))
       \<and> (\<forall>cfHandle db st db'.
            RBT.lookup (m_mapCFHandles mgr) n = Some cfHandle \<and> m_pRocksDB mgr = Some db
            \<and> DropColumnFamily E db cfHandle = (st, db') \<and> \<not> ok st \<longrightarrow>
            (\<exists>mgr'. deleteDB E n mgr =
                      Inr (Some (Error (''Could not remove the DB '' @ n @ ''. RocksDB Status: '' @ ToString st)), mgr')
                  \<and> m_mapCFHandles mgr' = m_mapCFHandles mgr \<and> existsDB n mgr'))
       \<and> (\<forall>cfHandle db st db'.
            RBT.lookup (m_mapCFHandles mgr) n = Some cfHandle \<and> m_pRocksDB mgr = Some db
            \<and> DropColumnFamily E db cfHandle = (st, db') \<and> ok st \<longrightarrow>
            (\<exists>mgr'. deleteDB E n mgr = Inr (None, mgr') \<and> \<not> existsDB n mgr'
                  \<and> (\<forall>n'. n' \<noteq> n \<longrightarrow> RBT.lookup (m_mapCFHandles mgr') n' = RBT.lookup (m_mapCFHandles mgr) n')))"
proof -
  have free: "std_map_count (getKVDBHandlersInfo mgr) n = 0"
    using assms by (rule deleteDB_free)
  have untracked: "\<not> existsDB n mgr \<longrightarrow>
      deleteDB E n mgr = Inr (Some (Error ''The DB not exists.''), mgr)"
    by (simp add: deleteDB_def free existsDB_lookup)
  have failed: "\<exists>mgr'. deleteDB E n mgr =
                      Inr (Some (Error (''Could not remove the DB '' @ n @ ''. RocksDB Status: '' @ ToString st)), mgr')
                  \<and> m_mapCFHandles mgr' = m_mapCFHandles mgr \<and> existsDB n mgr'"
    if "RBT.lookup (m_mapCFHandles mgr) n = Some cfHandle" "m_pRocksDB mgr = Some db"
       "DropColumnFamily E db cfHandle = (st, db')" "\<not> ok st" for cfHandle db st db'
    using that by (simp add: deleteDB_def free existsDB_lookup)
  have dropped: "\<exists>mgr'. deleteDB E n mgr = Inr (None, mgr') \<and> \<not> existsDB n mgr'
                  \<and> (\<forall>n'. n' \<noteq> n \<longrightarrow> RBT.lookup (m_mapCFHandles mgr') n' = RBT.lookup (m_mapCFHandles mgr) n')"
    if "RBT.lookup (m_mapCFHandles mgr) n = Some cfHandle" "m_pRocksDB mgr = Some db"
       "DropColumnFamily E db cfHandle = (st, db')" "ok st" for cfHandle db st db'
    using that by (simp add: deleteDB_def free existsDB_lookup)
  from untracked failed dropped show ?thesis by blast
qed

theorem deleteDB_zero_usage_witness:
  "deleteDB exampleEnv ''n'' freshManager = Inr (Some (Error ''The DB not exists.''), freshManager)
   \<and> (\<exists>mgr'. deleteDB exampleEnv ''n'' stuckManager =
                Inr (Some (Error ''Could not remove the DB n. RocksDB Status: IO error''), mgr')
            \<and> existsDB ''n'' mgr')
   \<and> (\<exists>mgr'. deleteDB exampleEnv ''n'' openedManager = Inr (None, mgr') \<and> \<not> existsDB ''n'' mgr')"
proof -
  have z1: "\<forall>s. RBT.lookup (m_kvdbHandlerCollection freshManager) (''n'', s) = None"
    by (simp add: freshManager_def KVDBManager_new_def)
  have z2: "\<forall>s. RBT.lookup (m_kvdbHandlerCollection stuckManager) (''n'', s) = None"
    by (simp add: stuckManager_def freshManager_def KVDBManager_new_def)
  have z3: "\<forall>s. RBT.lookup (m_kvdbHandlerCollection openedManager) (''n'', s) = None"
    by (simp add: openedManager_def freshManager_def KVDBManager_new_def)
  have u: "\<not> existsDB ''n'' freshManager"
    by (simp add: existsDB_lookup freshManager_def KVDBManager_new_def)
  have t2: "RBT.lookup (m_mapCFHandles stuckManager) ''n'' = Some 13 \<and> m_pRocksDB stuckManager = Some []
            \<and> DropColumnFamily exampleEnv [] 13 = (Status False ''IO error'', []) \<and> \<not> ok (Status False ''IO error'')"
    by (simp add: stuckManager_def exampleEnv_def)
  have t3: "RBT.lookup (m_mapCFHandles openedManager) ''n'' = Some 5 \<and> m_pRocksDB openedManager = Some []
            \<and> DropColumnFamily exampleEnv [] 5 = (Status True ''OK'', []) \<and> ok (Status True ''OK'')"
    by (simp add: openedManager_def exampleEnv_def)
  show ?thesis
    using deleteDB_zero_usage[OF z1, of exampleEnv] deleteDB_zero_usage[OF z2, of exampleEnv]
      deleteDB_zero_usage[OF z3, of exampleEnv] u t2 t3
    by (metis append_Cons append_Nil status.sel(2))
qed

subsection \<open>The two views of the usage\<close>

text \<open>
  C3. \<^verbatim>\<open>getKVDBScopesInfo\<close> is the transpose of \<^verbatim>\<open>getKVDBHandlersInfo\<close>: the entry at
  (scope, database) of the one is the entry at (database, scope) of the other, absent when
  the other is absent, and both are the registry's usage entry of the pair. The databases
  of the one view and the scopes of the other are exactly those with at least one usage
  entry. The scope view is computed from the database view at each call.
\<close>

theorem scopes_info_transposes_handlers_info:
  "(\<forall>s d. at2 (getKVDBScopesInfo mgr) s d = at2 (getKVDBHandlersInfo mgr) d s)
   \<and> (\<forall>d s. at2 (getKVDBHandlersInfo mgr) d s = RBT.lookup (m_kvdbHandlerCollection mgr) (d, s))
   \<and> (\<forall>d. d \<in> set (RBT.keys (getKVDBHandlersInfo mgr))
            \<longleftrightarrow> (\<exists>s. RBT.lookup (m_kvdbHandlerCollection mgr) (d, s) \<noteq> None))
   \<and> (\<forall>s. s \<in> set (RBT.keys (getKVDBScopesInfo mgr))
            \<longleftrightarrow> (\<exists>d. RBT.lookup (m_kvdbHandlerCollection mgr) (d, s) \<noteq> None))
   \<and> getKVDBScopesInfo mgr = invertHandlersInfo (getKVDBHandlersInfo mgr)"
proof -
  let ?coll = "m_kvdbHandlerCollection mgr"
  have transpose: "at2 (getKVDBScopesInfo mgr) s d = at2 (getKVDBHandlersInfo mgr) d s" for s d
    by (simp add: getKVDBScopesInfo_def at2_invertHandlersInfo)
  have dbs: "d \<in> set (RBT.keys (getKVDBHandlersInfo mgr)) \<longleftrightarrow> (\<exists>s. RBT.lookup ?coll (d, s) \<noteq> None)" for d
    by (simp add: keys_lookup lookup_getKVDBHandlersInfo set_getDBNames)
  have scopes: "s \<in> set (RBT.keys (getKVDBScopesInfo mgr)) \<longleftrightarrow> (\<exists>d. RBT.lookup ?coll (d, s) \<noteq> None)" for s
  proof -
    have "s \<in> set (RBT.keys (getKVDBScopesInfo mgr))
          \<longleftrightarrow> (\<exists>d ri. RBT.lookup (getKVDBHandlersInfo mgr) d = Some ri \<and> RBT.lookup ri s \<noteq> None)"
      using lookup_invertHandlersInfo_None[of "getKVDBHandlersInfo mgr" s]
      by (auto simp: keys_lookup getKVDBScopesInfo_def)
    also have "\<dots> \<longleftrightarrow> (\<exists>d. at2 (getKVDBHandlersInfo mgr) d s \<noteq> None)"
      unfolding at2_def by (force split: option.splits)
    finally show ?thesis by (simp add: at2_getKVDBHandlersInfo)
  qed
  show ?thesis
    using transpose dbs scopes
    by (simp add: at2_getKVDBHandlersInfo getKVDBScopesInfo_def)
qed

theorem scopes_info_transposes_handlers_info_witness:
  "at2 (getKVDBScopesInfo twoScopes) ''s2'' ''n'' = Some 1
   \<and> at2 (getKVDBHandlersInfo twoScopes) ''n'' ''s2'' = Some 1
   \<and> RBT.keys (getKVDBHandlersInfo twoScopes) = [''n'']
   \<and> RBT.keys (getKVDBScopesInfo twoScopes) = [''s1'', ''s2'']"
proof -
  note inst = scopes_info_transposes_handlers_info[of twoScopes]
  have entry: "RBT.lookup (m_kvdbHandlerCollection twoScopes) (''n'', ''s2'') = Some 1"
    by code_simp
  from inst have "at2 (getKVDBHandlersInfo twoScopes) ''n'' ''s2''
                 = RBT.lookup (m_kvdbHandlerCollection twoScopes) (''n'', ''s2'')"
    by blast
  with entry have h: "at2 (getKVDBHandlersInfo twoScopes) ''n'' ''s2'' = Some 1"
    by simp
  from inst have "at2 (getKVDBScopesInfo twoScopes) ''s2'' ''n'' = at2 (getKVDBHandlersInfo twoScopes) ''n'' ''s2''"
    by blast
  with h have t: "at2 (getKVDBScopesInfo twoScopes) ''s2'' ''n'' = Some 1"
    by simp
  have k1: "RBT.keys (getKVDBHandlersInfo twoScopes) = [''n'']"
    by code_simp
  have k2: "RBT.keys (getKVDBScopesInfo twoScopes) = [''s1'', ''s2'']"
    by code_simp
  from t h k1 k2 show ?thesis by blast
qed

subsection \<open>Handing out a handler\<close>

lemma lookup_addKVDBHandler:
  "RBT.lookup (addKVDBHandler dbName scopeName coll) k =
     (if k = (dbName, scopeName)
      then Some (case RBT.lookup coll (dbName, scopeName) of None \<Rightarrow> 1 | Some c \<Rightarrow> c + 1)
      else RBT.lookup coll k)"
  by (simp add: addKVDBHandler_def split: option.splits)

text \<open>
  C4. \<^verbatim>\<open>getKVDBHandler(dbName, scopeName)\<close> returns the error "The DB ... not exists." and
  leaves the manager, and so the registry, as it was when \<open>dbName\<close> is not tracked.
  Otherwise it calls \<^verbatim>\<open>addKVDBHandler\<close> once, which raises the usage entry of the pair by
  one (to 1 when there was none) and touches no other entry, changes nothing else in the
  manager, and returns a handler made of the tracked column family handle, the engine
  pointer, the collection and the two names.
\<close>

theorem getKVDBHandler_untracked_or_acquires:
  "(\<not> existsDB dbName mgr \<longrightarrow>
      getKVDBHandler dbName scopeName mgr = (Inl (Error (''The DB '' @ dbName @ '' not exists.'')), mgr))
   \<and> (\<forall>cfHandle. RBT.lookup (m_mapCFHandles mgr) dbName = Some cfHandle \<longrightarrow>
        (\<exists>h coll'.
           getKVDBHandler dbName scopeName mgr = (Inr h, mgr\<lparr> m_kvdbHandlerCollection := coll' \<rparr>)
           \<and> coll' = addKVDBHandler dbName scopeName (m_kvdbHandlerCollection mgr)
           \<and> RBT.lookup coll' (dbName, scopeName) =
               Some (case RBT.lookup (m_kvdbHandlerCollection mgr) (dbName, scopeName) of
                       None \<Rightarrow> 1 | Some c \<Rightarrow> c + 1)
           \<and> (\<forall>k. k \<noteq> (dbName, scopeName) \<longrightarrow>
                 RBT.lookup coll' k = RBT.lookup (m_kvdbHandlerCollection mgr) k)
           \<and> kh_dbName h = dbName \<and> kh_scopeName h = scopeName \<and> kh_cfHandle h = cfHandle
           \<and> kh_pRocksDB h = m_pRocksDB mgr \<and> kh_collection h = coll'))"
  by (simp add: getKVDBHandler_def existsDB_lookup std_map_count_eq Let_def lookup_addKVDBHandler)

theorem getKVDBHandler_untracked_or_acquires_witness:
  "getKVDBHandler ''m'' ''s1'' openedManager = (Inl (Error ''The DB m not exists.''), openedManager)
   \<and> (\<exists>h coll'. getKVDBHandler ''n'' ''s1'' openedManager
                   = (Inr h, openedManager\<lparr> m_kvdbHandlerCollection := coll' \<rparr>)
         \<and> RBT.lookup coll' (''n'', ''s1'') = Some 1
         \<and> kh_dbName h = ''n'' \<and> kh_scopeName h = ''s1'' \<and> kh_cfHandle h = 5)"
proof -
  have u: "\<not> existsDB ''m'' openedManager"
    by (simp add: existsDB_lookup openedManager_def)
  have t: "RBT.lookup (m_mapCFHandles openedManager) ''n'' = Some 5"
    by (simp add: openedManager_def)
  have e: "RBT.lookup (m_kvdbHandlerCollection openedManager) (''n'', ''s1'') = None"
    by (simp add: openedManager_def freshManager_def KVDBManager_new_def)
  from getKVDBHandler_untracked_or_acquires[of "''m''" openedManager "''s1''"] u
  have a: "getKVDBHandler ''m'' ''s1'' openedManager = (Inl (Error ''The DB m not exists.''), openedManager)"
    by simp
  from getKVDBHandler_untracked_or_acquires[of "''n''" openedManager "''s1''"] t
  obtain h coll' where r: "getKVDBHandler ''n'' ''s1'' openedManager
                   = (Inr h, openedManager\<lparr> m_kvdbHandlerCollection := coll' \<rparr>)"
    and c: "RBT.lookup coll' (''n'', ''s1'') =
               Some (case RBT.lookup (m_kvdbHandlerCollection openedManager) (''n'', ''s1'') of
                       None \<Rightarrow> 1 | Some c \<Rightarrow> c + 1)"
    and f: "kh_dbName h = ''n''" "kh_scopeName h = ''s1''" "kh_cfHandle h = 5"
    by blast
  from c e have "RBT.lookup coll' (''n'', ''s1'') = Some 1"
    by simp
  with r f
  have b: "\<exists>h coll'. getKVDBHandler ''n'' ''s1'' openedManager
                   = (Inr h, openedManager\<lparr> m_kvdbHandlerCollection := coll' \<rparr>)
         \<and> RBT.lookup coll' (''n'', ''s1'') = Some 1
         \<and> kh_dbName h = ''n'' \<and> kh_scopeName h = ''s1'' \<and> kh_cfHandle h = 5"
    by blast
  from a b show ?thesis by blast
qed

subsection \<open>Creating a database\<close>

lemma createColumnFamily_ok:
  assumes "m_pRocksDB mgr = Some db" "CreateColumnFamily E db name = (st, cfHandle, db')" "ok st"
  shows "createColumnFamily E name mgr =
           Inr (Inr cfHandle, mgr\<lparr> m_pRocksDB := Some db',
                                    m_mapCFHandles := std_map_insert name cfHandle (m_mapCFHandles mgr) \<rparr>)"
  using assms by (simp add: createColumnFamily_def)

lemma createColumnFamily_failed:
  assumes "m_pRocksDB mgr = Some db" "CreateColumnFamily E db name = (st, cfHandle, db')" "\<not> ok st"
  shows "createColumnFamily E name mgr =
           Inr (Inl (Error (''Could not create DB '' @ name @ '', RocksDB Status: '' @ ToString st)),
                mgr\<lparr> m_pRocksDB := Some db' \<rparr>)"
  using assms by (simp add: createColumnFamily_def)

lemma createDB_success_tracked:
  assumes "createDB E n mgr = Inr (None, mgr')"
  shows "existsDB n mgr'"
proof (cases "existsDB n mgr")
  case True
  with assms show ?thesis by (simp add: createDB_def)
next
  case False
  with assms obtain cfHandle where cc: "createColumnFamily E n mgr = Inr (Inr cfHandle, mgr')"
    by (auto simp: createDB_def split: sum.splits)
  then show ?thesis
    by (auto simp: createColumnFamily_def existsDB_lookup lookup_std_map_insert
        split: option.splits prod.splits if_splits)
qed

text \<open>
  C5. After a \<^verbatim>\<open>createDB(n)\<close> that returns no error, \<open>n\<close> is tracked and a second
  \<^verbatim>\<open>createDB(n)\<close> returns no error and the same manager; on a tracked name \<^verbatim>\<open>createDB\<close>
  changes nothing. On an untracked name, when the engine creates the column family its
  handle is recorded under \<open>n\<close>; when the engine refuses, the error carries the engine's
  status text and the tracked set is unchanged, so \<open>n\<close> stays untracked.
\<close>

theorem createDB_tracks_or_reports:
  "(\<forall>mgr'. createDB E n mgr = Inr (None, mgr') \<longrightarrow>
       existsDB n mgr' \<and> createDB E n mgr' = Inr (None, mgr'))
   \<and> (existsDB n mgr \<longrightarrow> createDB E n mgr = Inr (None, mgr))
   \<and> (\<forall>db st cfHandle db'.
         \<not> existsDB n mgr \<and> m_pRocksDB mgr = Some db
         \<and> CreateColumnFamily E db n = (st, cfHandle, db') \<and> ok st \<longrightarrow>
         (\<exists>mgr'. createDB E n mgr = Inr (None, mgr')
               \<and> RBT.lookup (m_mapCFHandles mgr') n = Some cfHandle
               \<and> (\<forall>n'. n' \<noteq> n \<longrightarrow> RBT.lookup (m_mapCFHandles mgr') n' = RBT.lookup (m_mapCFHandles mgr) n')))
   \<and> (\<forall>db st cfHandle db'.
         \<not> existsDB n mgr \<and> m_pRocksDB mgr = Some db
         \<and> CreateColumnFamily E db n = (st, cfHandle, db') \<and> \<not> ok st \<longrightarrow>
         (\<exists>mgr'. createDB E n mgr =
                   Inr (Some (Error (''Could not create DB '' @ n @ '', RocksDB Status: '' @ ToString st)), mgr')
               \<and> m_mapCFHandles mgr' = m_mapCFHandles mgr \<and> \<not> existsDB n mgr'))"
proof -
  have first: "existsDB n mgr' \<and> createDB E n mgr' = Inr (None, mgr')"
    if "createDB E n mgr = Inr (None, mgr')" for mgr'
    using createDB_success_tracked[OF that] by (simp add: createDB_def)
  have again: "existsDB n mgr \<longrightarrow> createDB E n mgr = Inr (None, mgr)"
    by (simp add: createDB_def)
  have made: "\<exists>mgr'. createDB E n mgr = Inr (None, mgr')
               \<and> RBT.lookup (m_mapCFHandles mgr') n = Some cfHandle
               \<and> (\<forall>n'. n' \<noteq> n \<longrightarrow> RBT.lookup (m_mapCFHandles mgr') n' = RBT.lookup (m_mapCFHandles mgr) n')"
    if "\<not> existsDB n mgr" "m_pRocksDB mgr = Some db" "CreateColumnFamily E db n = (st, cfHandle, db')" "ok st"
    for db st cfHandle db'
    using that createColumnFamily_ok[OF that(2,3,4)]
    by (simp add: createDB_def lookup_std_map_insert existsDB_lookup)
  have refused: "\<exists>mgr'. createDB E n mgr =
                   Inr (Some (Error (''Could not create DB '' @ n @ '', RocksDB Status: '' @ ToString st)), mgr')
               \<and> m_mapCFHandles mgr' = m_mapCFHandles mgr \<and> \<not> existsDB n mgr'"
    if "\<not> existsDB n mgr" "m_pRocksDB mgr = Some db" "CreateColumnFamily E db n = (st, cfHandle, db')" "\<not> ok st"
    for db st cfHandle db'
    using that createColumnFamily_failed[OF that(2,3,4)]
    by (simp add: createDB_def existsDB_lookup)
  from first again made refused show ?thesis by blast
qed

theorem createDB_tracks_or_reports_witness:
  "(\<exists>mgr'. createDB exampleEnv ''users'' openedManager = Inr (None, mgr')
        \<and> existsDB ''users'' mgr' \<and> createDB exampleEnv ''users'' mgr' = Inr (None, mgr'))
   \<and> createDB exampleEnv ''n'' openedManager = Inr (None, openedManager)
   \<and> (\<exists>mgr'. createDB exampleEnv ''bad'' openedManager =
               Inr (Some (Error ''Could not create DB bad, RocksDB Status: Invalid argument''), mgr')
        \<and> \<not> existsDB ''bad'' mgr')"
proof -
  have eng: "m_pRocksDB openedManager = Some []"
    by (simp add: openedManager_def)
  have u1: "\<not> existsDB ''users'' openedManager" and u2: "\<not> existsDB ''bad'' openedManager"
    and t: "existsDB ''n'' openedManager"
    by (simp_all add: existsDB_lookup openedManager_def)
  have c1: "CreateColumnFamily exampleEnv [] ''users'' = (Status True ''OK'', 7, [])"
    and c2: "CreateColumnFamily exampleEnv [] ''bad'' = (Status False ''Invalid argument'', 0, [])"
    by (simp_all add: exampleEnv_def)
  have ok1: "ok (Status True ''OK'')" and ok2: "\<not> ok (Status False ''Invalid argument'')"
    by simp_all
  note made = createDB_tracks_or_reports[of exampleEnv "''users''" openedManager,
      THEN conjunct2, THEN conjunct2, THEN conjunct1, rule_format]
  note first = createDB_tracks_or_reports[of exampleEnv "''users''" openedManager,
      THEN conjunct1, rule_format]
  note again = createDB_tracks_or_reports[of exampleEnv "''n''" openedManager,
      THEN conjunct2, THEN conjunct1, rule_format]
  note refused = createDB_tracks_or_reports[of exampleEnv "''bad''" openedManager,
      THEN conjunct2, THEN conjunct2, THEN conjunct2, rule_format]
  from made[of "[]" "Status True ''OK''" 7 "[]"] u1 eng c1 ok1
  obtain mgr' where m: "createDB exampleEnv ''users'' openedManager = Inr (None, mgr')"
    by auto
  from first[OF m] m
  have a: "\<exists>mgr'. createDB exampleEnv ''users'' openedManager = Inr (None, mgr')
        \<and> existsDB ''users'' mgr' \<and> createDB exampleEnv ''users'' mgr' = Inr (None, mgr')"
    by auto
  from again[OF t]
  have b: "createDB exampleEnv ''n'' openedManager = Inr (None, openedManager)" .
  from refused[of "[]" "Status False ''Invalid argument''" 0 "[]"] u2 eng c2 ok2
  have c: "\<exists>mgr'. createDB exampleEnv ''bad'' openedManager =
               Inr (Some (Error ''Could not create DB bad, RocksDB Status: Invalid argument''), mgr')
        \<and> \<not> existsDB ''bad'' mgr'"
    by auto
  from a b c show ?thesis by blast
qed

subsection \<open>Initialization and the default column family\<close>






lemma joinHandles_returns:
  "i + length descs \<le> length cfHandles \<Longrightarrow> \<exists>mgr'. joinHandles descs cfHandles i mgr = Inr mgr'"
  by (induction descs arbitrary: i mgr) auto

lemma joinHandles_out_of_range:
  "descs \<noteq> [] \<Longrightarrow> i \<le> length cfHandles \<Longrightarrow> length cfHandles < i + length descs \<Longrightarrow>
   joinHandles descs cfHandles i mgr = Inl VectorIndexOutOfRange"
proof (induction descs arbitrary: i mgr)
  case Nil
  then show ?case by simp
next
  case (Cons d descs)
  show ?case
  proof (cases "i < length cfHandles")
    case True
    with Cons.prems have "descs \<noteq> []" "Suc i \<le> length cfHandles" "length cfHandles < Suc i + length descs"
      by auto
    from Cons.IH[OF this] True show ?thesis by simp
  next
    case False
    then show ?thesis by simp
  qed
qed


lemma keys_Nil_iff: "RBT.keys m = [] \<longleftrightarrow> (\<forall>k. RBT.lookup m k = None)"
proof
  assume "RBT.keys m = []"
  then have "\<forall>k. k \<notin> set (RBT.keys m)" by simp
  then show "\<forall>k. RBT.lookup m k = None"
    by (simp add: keys_lookup)
next
  assume "\<forall>k. RBT.lookup m k = None"
  then have "\<forall>k. k \<notin> set (RBT.keys m)"
    by (simp add: keys_lookup)
  then have "set (RBT.keys m) = {}" by auto
  then show "RBT.keys m = []" by simp
qed




















subsection \<open>Loading a file\<close>

lemma update_same_engine: "m_pRocksDB mgr = Some db \<Longrightarrow> mgr\<lparr> m_pRocksDB := Some db \<rparr> = mgr"
  by (cases mgr) auto

lemma putEntries_all_written:
  "m_pRocksDB mgr = Some db \<Longrightarrow> writeAll E cfHandle entries db = Some db' \<Longrightarrow>
   putEntries E cfHandle entries mgr = Inr (None, mgr\<lparr> m_pRocksDB := Some db' \<rparr>)"
proof (induction entries arbitrary: mgr db)
  case Nil
  then show ?case by (simp add: update_same_engine)
next
  case (Cons e entries)
  obtain key val where e: "e = (key, val)" by (cases e)
  obtain status db1 where p: "Put E db cfHandle key (str E val) = (status, db1)"
    by (cases "Put E db cfHandle key (str E val)")
  from Cons.prems(2) have okp: "ok status" and rest: "writeAll E cfHandle entries db1 = Some db'"
    by (auto simp: e p split: if_splits)
  have "putEntries E cfHandle entries (mgr\<lparr> m_pRocksDB := Some db1 \<rparr>)
          = Inr (None, mgr\<lparr> m_pRocksDB := Some db1 \<rparr>\<lparr> m_pRocksDB := Some db' \<rparr>)"
    by (rule Cons.IH[OF _ rest]) simp
  then show ?case
    using Cons.prems(1) okp by (simp add: e p)
qed

lemma putEntries_first_failure:
  "m_pRocksDB mgr = Some db \<Longrightarrow> writeAll E cfHandle pre db = Some db1 \<Longrightarrow>
   Put E db1 cfHandle key (str E val) = (st, db2) \<Longrightarrow> \<not> ok st \<Longrightarrow>
   putEntries E cfHandle (pre @ (key, val) # post) mgr =
     Inr (Some (Error (''An error occurred while inserting data key '' @ key
                        @ '', value '' @ str E val @ '': '')),
          mgr\<lparr> m_pRocksDB := Some db2 \<rparr>)"
proof (induction pre arbitrary: mgr db)
  case Nil
  then show ?case by simp
next
  case (Cons e pre)
  obtain k v where e: "e = (k, v)" by (cases e)
  obtain status db' where p: "Put E db cfHandle k (str E v) = (status, db')"
    by (cases "Put E db cfHandle k (str E v)")
  from Cons.prems(2) have okp: "ok status" and rest: "writeAll E cfHandle pre db' = Some db1"
    by (auto simp: e p split: if_splits)
  have "putEntries E cfHandle (pre @ (key, val) # post) (mgr\<lparr> m_pRocksDB := Some db' \<rparr>) =
     Inr (Some (Error (''An error occurred while inserting data key '' @ key
                        @ '', value '' @ str E val @ '': '')),
          mgr\<lparr> m_pRocksDB := Some db' \<rparr>\<lparr> m_pRocksDB := Some db2 \<rparr>)"
    by (rule Cons.IH[OF _ rest Cons.prems(3,4)]) simp
  then show ?case
    using Cons.prems(1) okp by (simp add: e p)
qed

lemma loadDBFromFile_object:
  assumes "RBT.lookup (m_mapCFHandles mgr) name = Some cfHandle" "path \<noteq> []"
    "read_file E path = Bytes contents" "parse E (c_str contents) = Some (JObject entries)"
  shows "loadDBFromFile E name path mgr = putEntries E cfHandle entries mgr"
  using assms by (simp add: loadDBFromFile_def std_map_count_eq)

lemma loadDBFromFile_reports_or_writes:
  "(\<not> existsDB name mgr \<or> path = [] \<or> read_file E path = CannotOpen
      \<or> (\<exists>contents. read_file E path = Bytes contents
            \<and> (parse E (c_str contents) = None
                 \<or> (\<exists>doc. parse E (c_str contents) = Some doc \<and> \<not> isObject doc))) \<longrightarrow>
      (\<exists>e. loadDBFromFile E name path mgr = Inr (Some e, mgr)))
   \<and> (\<not> existsDB name mgr \<longrightarrow>
      loadDBFromFile E name path mgr = Inr (Some (Error ''The DB not exists.''), mgr))
   \<and> (existsDB name mgr \<and> path = [] \<longrightarrow>
      loadDBFromFile E name path mgr = Inr (Some (Error ''The path is empty.''), mgr))
   \<and> (existsDB name mgr \<and> path \<noteq> [] \<and> read_file E path = CannotOpen \<longrightarrow>
      loadDBFromFile E name path mgr =
        Inr (Some (Error (''An error occurred while opening the file '' @ quoted (c_str path))), mgr))
   \<and> (\<forall>contents.
        existsDB name mgr \<and> path \<noteq> [] \<and> read_file E path = Bytes contents
        \<and> parse E (c_str contents) = None \<longrightarrow>
        loadDBFromFile E name path mgr =
          Inr (Some (Error (''An error occurred while parsing the JSON file '' @ quoted (c_str path))), mgr))
   \<and> (\<forall>contents doc.
        existsDB name mgr \<and> path \<noteq> [] \<and> read_file E path = Bytes contents
        \<and> parse E (c_str contents) = Some doc \<and> \<not> isObject doc \<longrightarrow>
        loadDBFromFile E name path mgr =
          Inr (Some (Error (''An error occurred while parsing the JSON file '' @ quoted (c_str path)
                             @ '': JSON is not an object'')), mgr))
   \<and> (\<forall>cfHandle contents entries db.
        RBT.lookup (m_mapCFHandles mgr) name = Some cfHandle \<and> path \<noteq> []
        \<and> read_file E path = Bytes contents \<and> parse E (c_str contents) = Some (JObject entries)
        \<and> m_pRocksDB mgr = Some db \<longrightarrow>
        (\<forall>db'. writeAll E cfHandle entries db = Some db' \<longrightarrow>
           loadDBFromFile E name path mgr = Inr (None, mgr\<lparr> m_pRocksDB := Some db' \<rparr>))
        \<and> (\<forall>pre key val post db1 st db2.
             entries = pre @ (key, val) # post \<and> writeAll E cfHandle pre db = Some db1
             \<and> Put E db1 cfHandle key (str E val) = (st, db2) \<and> \<not> ok st \<longrightarrow>
             loadDBFromFile E name path mgr =
               Inr (Some (Error (''An error occurred while inserting data key '' @ key
                                  @ '', value '' @ str E val @ '': '')),
                    mgr\<lparr> m_pRocksDB := Some db2 \<rparr>)))"
proof -
  have rejected: "\<not> existsDB name mgr \<or> path = [] \<or> read_file E path = CannotOpen
      \<or> (\<exists>contents. read_file E path = Bytes contents
            \<and> (parse E (c_str contents) = None
                 \<or> (\<exists>doc. parse E (c_str contents) = Some doc \<and> \<not> isObject doc))) \<longrightarrow>
      (\<exists>e. loadDBFromFile E name path mgr = Inr (Some e, mgr))"
    by (auto simp: loadDBFromFile_def existsDB_lookup std_map_count_eq
        split: option.splits file_read.splits)
  have untracked: "\<not> existsDB name mgr \<longrightarrow>
      loadDBFromFile E name path mgr = Inr (Some (Error ''The DB not exists.''), mgr)"
    by (simp add: loadDBFromFile_def existsDB_def)
  have nopath: "existsDB name mgr \<and> path = [] \<longrightarrow>
      loadDBFromFile E name path mgr = Inr (Some (Error ''The path is empty.''), mgr)"
    by (auto simp: loadDBFromFile_def existsDB_lookup std_map_count_eq)
  have unread: "existsDB name mgr \<and> path \<noteq> [] \<and> read_file E path = CannotOpen \<longrightarrow>
      loadDBFromFile E name path mgr =
        Inr (Some (Error (''An error occurred while opening the file '' @ quoted (c_str path))), mgr)"
    by (auto simp: loadDBFromFile_def existsDB_lookup std_map_count_eq)
  have unparsed: "\<forall>contents. existsDB name mgr \<and> path \<noteq> [] \<and> read_file E path = Bytes contents
        \<and> parse E (c_str contents) = None \<longrightarrow>
        loadDBFromFile E name path mgr =
          Inr (Some (Error (''An error occurred while parsing the JSON file '' @ quoted (c_str path))), mgr)"
    by (auto simp: loadDBFromFile_def existsDB_lookup std_map_count_eq)
  have notobject: "\<forall>contents doc. existsDB name mgr \<and> path \<noteq> [] \<and> read_file E path = Bytes contents
        \<and> parse E (c_str contents) = Some doc \<and> \<not> isObject doc \<longrightarrow>
        loadDBFromFile E name path mgr =
          Inr (Some (Error (''An error occurred while parsing the JSON file '' @ quoted (c_str path)
                             @ '': JSON is not an object'')), mgr)"
    by (auto simp: loadDBFromFile_def existsDB_lookup std_map_count_eq)
  have written: "loadDBFromFile E name path mgr = Inr (None, mgr\<lparr> m_pRocksDB := Some db' \<rparr>)"
    if "RBT.lookup (m_mapCFHandles mgr) name = Some cfHandle" "path \<noteq> []"
       "read_file E path = Bytes contents" "parse E (c_str contents) = Some (JObject entries)"
       "m_pRocksDB mgr = Some db" "writeAll E cfHandle entries db = Some db'"
    for cfHandle contents entries db db'
    using loadDBFromFile_object[OF that(1-4)] putEntries_all_written[OF that(5,6)] by simp
  have aborted: "loadDBFromFile E name path mgr =
               Inr (Some (Error (''An error occurred while inserting data key '' @ key
                                  @ '', value '' @ str E val @ '': '')),
                    mgr\<lparr> m_pRocksDB := Some db2 \<rparr>)"
    if "RBT.lookup (m_mapCFHandles mgr) name = Some cfHandle" "path \<noteq> []"
       "read_file E path = Bytes contents" "parse E (c_str contents) = Some (JObject entries)"
       "m_pRocksDB mgr = Some db" "entries = pre @ (key, val) # post"
       "writeAll E cfHandle pre db = Some db1" "Put E db1 cfHandle key (str E val) = (st, db2)" "\<not> ok st"
    for cfHandle contents entries db pre key val post db1 st db2
    using loadDBFromFile_object[OF that(1-4)] putEntries_first_failure[OF that(5,7,8,9)] that(6) by simp
  have tail: "\<forall>cfHandle contents entries db.
        RBT.lookup (m_mapCFHandles mgr) name = Some cfHandle \<and> path \<noteq> []
        \<and> read_file E path = Bytes contents \<and> parse E (c_str contents) = Some (JObject entries)
        \<and> m_pRocksDB mgr = Some db \<longrightarrow>
        (\<forall>db'. writeAll E cfHandle entries db = Some db' \<longrightarrow>
           loadDBFromFile E name path mgr = Inr (None, mgr\<lparr> m_pRocksDB := Some db' \<rparr>))
        \<and> (\<forall>pre key val post db1 st db2.
             entries = pre @ (key, val) # post \<and> writeAll E cfHandle pre db = Some db1
             \<and> Put E db1 cfHandle key (str E val) = (st, db2) \<and> \<not> ok st \<longrightarrow>
             loadDBFromFile E name path mgr =
               Inr (Some (Error (''An error occurred while inserting data key '' @ key
                                  @ '', value '' @ str E val @ '': '')),
                    mgr\<lparr> m_pRocksDB := Some db2 \<rparr>))"
    by (intro allI impI conjI; elim conjE) ((rule written; assumption), (rule aborted; assumption))
  show ?thesis
    by (rule conjI[OF rejected conjI[OF untracked conjI[OF nopath conjI[OF unread
          conjI[OF unparsed conjI[OF notobject tail]]]]]])
qed

lemma loadDBFromFile_examples:
  "loadDBFromFile exampleEnv ''m'' ''kv.json'' openedManager
      = Inr (Some (Error ''The DB not exists.''), openedManager)
   \<and> loadDBFromFile exampleEnv ''n'' [] openedManager
      = Inr (Some (Error ''The path is empty.''), openedManager)
   \<and> loadDBFromFile exampleEnv ''n'' ''none.json'' openedManager
      = Inr (Some (Error (''An error occurred while opening the file '' @ quoted ''none.json'')), openedManager)
   \<and> loadDBFromFile exampleEnv ''n'' ''junk.json'' openedManager
      = Inr (Some (Error (''An error occurred while parsing the JSON file '' @ quoted ''junk.json'')), openedManager)
   \<and> loadDBFromFile exampleEnv ''n'' ''list.json'' openedManager
      = Inr (Some (Error (''An error occurred while parsing the JSON file '' @ quoted ''list.json''
                          @ '': JSON is not an object'')), openedManager)
   \<and> loadDBFromFile exampleEnv ''n'' ''ok.json'' openedManager
      = Inr (None, openedManager\<lparr> m_pRocksDB := Some [(5, ''a'', ''1''), (5, ''c'', ''3'')] \<rparr>)
   \<and> loadDBFromFile exampleEnv ''n'' ''kv.json'' openedManager
      = Inr (Some (Error ''An error occurred while inserting data key bad, value 2: ''),
             openedManager\<lparr> m_pRocksDB := Some [(5, ''a'', ''1'')] \<rparr>)"
proof -
  have u: "\<not> existsDB ''m'' openedManager" and t: "existsDB ''n'' openedManager"
    and h: "RBT.lookup (m_mapCFHandles openedManager) ''n'' = Some 5"
    and eng: "m_pRocksDB openedManager = Some []"
    by (simp_all add: existsDB_lookup openedManager_def)
  have r0: "read_file exampleEnv ''none.json'' = CannotOpen"
    and r1: "read_file exampleEnv ''junk.json'' = Bytes ''{''"
    and r2: "read_file exampleEnv ''list.json'' = Bytes ''[1]''"
    and r3: "read_file exampleEnv ''ok.json'' = Bytes ''{a:1,c:3}''"
    and r4: "read_file exampleEnv ''kv.json'' = Bytes ''{a:1,bad:2,c:3}''"
    by (simp_all add: exampleEnv_def)
  have p1: "parse exampleEnv (c_str ''{'') = None"
    and p2: "parse exampleEnv (c_str ''[1]'') = Some (JArray [JNumber 1])"
    and p3: "parse exampleEnv (c_str ''{a:1,c:3}'') = Some (JObject [(''a'', JNumber 1), (''c'', JNumber 3)])"
    and p4: "parse exampleEnv (c_str ''{a:1,bad:2,c:3}'')
               = Some (JObject [(''a'', JNumber 1), (''bad'', JNumber 2), (''c'', JNumber 3)])"
    by (simp_all add: exampleEnv_def c_str_def)
  have c: "c_str ''none.json'' = ''none.json''" "c_str ''junk.json'' = ''junk.json''"
    "c_str ''list.json'' = ''list.json''"
    by (simp_all add: c_str_def)
  have w3: "writeAll exampleEnv 5 [(''a'', JNumber 1), (''c'', JNumber 3)] []
              = Some [(5, ''a'', ''1''), (5, ''c'', ''3'')]"
    and w4: "writeAll exampleEnv 5 [(''a'', JNumber 1)] [] = Some [(5, ''a'', ''1'')]"
    and f4: "Put exampleEnv [(5, ''a'', ''1'')] 5 ''bad'' (str exampleEnv (JNumber 2))
              = (Status False ''IO error'', [(5, ''a'', ''1'')])"
    and s4: "str exampleEnv (JNumber 2) = ''2''"
    by (simp_all add: exampleEnv_def)
  have ne: "''none.json'' \<noteq> []" "''junk.json'' \<noteq> []" "''list.json'' \<noteq> []"
    "''ok.json'' \<noteq> []" "''kv.json'' \<noteq> []"
    by simp_all
  have no: "\<not> isObject (JArray [JNumber 1])" and bad: "\<not> ok (Status False ''IO error'')"
    by simp_all
  note T = loadDBFromFile_reports_or_writes[THEN conjunct2]
  have a1: "loadDBFromFile exampleEnv ''m'' ''kv.json'' openedManager
      = Inr (Some (Error ''The DB not exists.''), openedManager)"
    by (rule T[THEN conjunct1, rule_format, OF u])
  have a2: "loadDBFromFile exampleEnv ''n'' [] openedManager
      = Inr (Some (Error ''The path is empty.''), openedManager)"
    by (rule T[THEN conjunct2, THEN conjunct1, rule_format, OF conjI[OF t refl]])
  have a3: "loadDBFromFile exampleEnv ''n'' ''none.json'' openedManager
      = Inr (Some (Error (''An error occurred while opening the file '' @ quoted ''none.json'')), openedManager)"
    using T[THEN conjunct2, THEN conjunct2, THEN conjunct1, rule_format,
        OF conjI[OF t conjI[OF ne(1) r0]]]
    by (simp only: c)
  have a4: "loadDBFromFile exampleEnv ''n'' ''junk.json'' openedManager
      = Inr (Some (Error (''An error occurred while parsing the JSON file '' @ quoted ''junk.json'')), openedManager)"
    using T[THEN conjunct2, THEN conjunct2, THEN conjunct2, THEN conjunct1, rule_format,
        OF conjI[OF t conjI[OF ne(2) conjI[OF r1 p1]]]]
    by (simp only: c)
  have a5: "loadDBFromFile exampleEnv ''n'' ''list.json'' openedManager
      = Inr (Some (Error (''An error occurred while parsing the JSON file '' @ quoted ''list.json''
                          @ '': JSON is not an object'')), openedManager)"
    using T[THEN conjunct2, THEN conjunct2, THEN conjunct2, THEN conjunct2, THEN conjunct1, rule_format,
        OF conjI[OF t conjI[OF ne(3) conjI[OF r2 conjI[OF p2 no]]]]]
    by (simp only: c)
  note tail = T[THEN conjunct2, THEN conjunct2, THEN conjunct2, THEN conjunct2, THEN conjunct2, rule_format]
  have a6: "loadDBFromFile exampleEnv ''n'' ''ok.json'' openedManager
      = Inr (None, openedManager\<lparr> m_pRocksDB := Some [(5, ''a'', ''1''), (5, ''c'', ''3'')] \<rparr>)"
    by (rule tail[OF conjI[OF h conjI[OF ne(4) conjI[OF r3 conjI[OF p3 eng]]]],
          THEN conjunct1, rule_format, OF w3])
  have "loadDBFromFile exampleEnv ''n'' ''kv.json'' openedManager
      = Inr (Some (Error (''An error occurred while inserting data key '' @ ''bad''
                                  @ '', value '' @ str exampleEnv (JNumber 2) @ '': '')),
             openedManager\<lparr> m_pRocksDB := Some [(5, ''a'', ''1'')] \<rparr>)"
    by (rule tail[OF conjI[OF h conjI[OF ne(5) conjI[OF r4 conjI[OF p4 eng]]]],
          THEN conjunct2, rule_format, OF conjI[OF _ conjI[OF w4 conjI[OF f4 bad]]]]) simp
  then have a7: "loadDBFromFile exampleEnv ''n'' ''kv.json'' openedManager
      = Inr (Some (Error ''An error occurred while inserting data key bad, value 2: ''),
             openedManager\<lparr> m_pRocksDB := Some [(5, ''a'', ''1'')] \<rparr>)"
    by (simp add: s4)
  show ?thesis
    by (rule conjI[OF a1 conjI[OF a2 conjI[OF a3 conjI[OF a4 conjI[OF a5 conjI[OF a6 a7]]]]]])
qed

lemma loadDBFromFile_no_size:
  "existsDB name mgr \<Longrightarrow> path \<noteq> [] \<Longrightarrow> read_file E path = NoSize \<Longrightarrow>
   loadDBFromFile E name path mgr = Inl LengthError"
  by (auto simp: loadDBFromFile_def existsDB_lookup std_map_count_eq)

text \<open>
  C7. \<^verbatim>\<open>loadDBFromFile(name, path)\<close> is to return an error when the file cannot be read and
  to write the entries otherwise. It does return an error, with the manager and the
  engine unchanged, for an untracked name, an empty path, a stream that does not open,
  contents that do not parse and a document that is not an object, and it writes the
  entries in order with no rollback when it has the bytes of an object
  (\<open>loadDBFromFile_reports_or_writes\<close>). It does neither when the stream opens without a
  size, as on a directory: \<^verbatim>\<open>resize\<close> throws and the exception leaves the function.
\<close>

theorem loadDBFromFile_throws_without_size:
  "existsDB ''n'' openedManager
   \<and> read_file exampleEnv ''/var/kvdb/'' = NoSize
   \<and> loadDBFromFile exampleEnv ''n'' ''/var/kvdb/'' openedManager = Inl LengthError"
proof -
  have t: "existsDB ''n'' openedManager"
    by (simp add: existsDB_lookup openedManager_def)
  have r: "read_file exampleEnv ''/var/kvdb/'' = NoSize"
    by (simp add: exampleEnv_def)
  have "loadDBFromFile exampleEnv ''n'' ''/var/kvdb/'' openedManager = Inl LengthError"
    by (rule loadDBFromFile_no_size[OF t _ r]) simp
  with t r show ?thesis by simp
qed

subsection \<open>Initialization when the engine does not open\<close>

lemma initialize_open_status_unread:
  "initialize (E\<lparr> Open := (\<lambda>opts p descs.
                  case Open E opts p descs of (st, cfHandles, pRocksDB) \<Rightarrow> (st', cfHandles, pRocksDB)) \<rparr>) mgr
     = initialize E mgr"
  by (simp add: initialize_def initializeMainDB_def cfDescriptorsOf_def Let_def split: prod.splits)

text \<open>
  C8. \<^verbatim>\<open>initialize()\<close> is to fail fatally when the engine cannot be opened. The code
  does not read the status \<^verbatim>\<open>DB::Open\<close> returns (\<open>initialize_open_status_unread\<close>), so
  it has no failure of its own for this case. When the open fails, the handles vector is
  empty and there is at least the default descriptor, so the joining loop reads
  \<^verbatim>\<open>cfHandles[0]\<close> past the end of the vector.
\<close>

theorem initialize_ignores_failed_open:
  "\<not> ok (fst (Open failingOpenEnv \<lparr> create_if_missing = True \<rparr>
                 (dbNameFullPathOf (m_ManagerOptions freshManager))
                 (cfDescriptorsOf failingOpenEnv (dbNameFullPathOf (m_ManagerOptions freshManager)))))
   \<and> initialize failingOpenEnv freshManager = Inl VectorIndexOutOfRange"
  by (simp add: initialize_def initializeMainDB_def initializeOptions_def cfDescriptorsOf_def
      failingOpenEnv_def exampleEnv_def freshManager_def KVDBManager_new_def exampleOptions_def
      dbNameFullPathOf_def kDefaultColumnFamilyName_def Let_def)

subsection \<open>Listing\<close>

text \<open>
  C9. The result of \<^verbatim>\<open>listDBs\<close> does not depend on its argument \<^verbatim>\<open>loaded\<close>.
\<close>

theorem listDBs_ignores_loaded: "listDBs True mgr = listDBs False mgr"
  by (simp add: listDBs_def)

subsection \<open>Finalization\<close>

text \<open>
  C10. \<^verbatim>\<open>finalize()\<close> returns on every manager whose engine pointer is set, and after it
  has returned no name is tracked, \<^verbatim>\<open>listDBs()\<close> is empty, the engine pointer is null
  and the manager is marked as not initialized.
\<close>

theorem finalize_clears_tracked_set:
  "(m_pRocksDB mgr \<noteq> None \<longrightarrow> (\<exists>mgr'. finalize E mgr = Inr mgr'))
   \<and> (\<forall>mgr'. finalize E mgr = Inr mgr' \<longrightarrow>
         (\<forall>n. \<not> existsDB n mgr') \<and> listDBs loaded mgr' = []
         \<and> m_pRocksDB mgr' = None \<and> \<not> m_isInitialized mgr')"
proof (cases "m_pRocksDB mgr")
  case None
  then show ?thesis by (simp add: finalize_None)
next
  case (Some db)
  show ?thesis
    by (simp add: finalize_Some[OF Some] existsDB_lookup listDBs_keys keys_Nil_iff)
qed

theorem finalize_clears_tracked_set_witness:
  "existsDB ''n'' openedManager
   \<and> (\<exists>mgr'. finalize exampleEnv openedManager = Inr mgr'
         \<and> \<not> existsDB ''n'' mgr' \<and> listDBs True mgr' = [] \<and> m_pRocksDB mgr' = None)"
proof -
  have e: "m_pRocksDB openedManager \<noteq> None" and t: "existsDB ''n'' openedManager"
    by (simp_all add: openedManager_def existsDB_lookup)
  note inst = finalize_clears_tracked_set[of openedManager exampleEnv True]
  from inst e obtain mgr' where f: "finalize exampleEnv openedManager = Inr mgr'"
    by blast
  with inst have "\<not> existsDB ''n'' mgr' \<and> listDBs True mgr' = [] \<and> m_pRocksDB mgr' = None"
    by blast
  with f t show ?thesis by blast
qed

end
